theory Spec2Isabelle
  imports Main "HOL-Library.Word"
begin

unbundle bit_operations_syntax

section \<open>The column-chunk writer of pixels-core (ColumnWriter.cpp)\<close>

text \<open>
  The development embeds \<^verbatim>\<open>cpp/pixels-core/lib/writer/ColumnWriter.cpp\<close>: the
  writer object is a record, every member function that changes the writer a function
  from the writer's state to its next state, and the two accessors of the chunk
  functions that return their result and the writer they leave.
  (\<^verbatim>\<open>getColumnChunkEncoding\<close> builds a constant message of kind \<^verbatim>\<open>NONE\<close> and reads
  nothing of the writer; it appears below only as a call without effect.) The collaborators whose code is not part of that file (the byte buffer, the
  bit packer, the statistics recorder and the protocol-buffer messages) are modelled
  from their documented contracts; each such definition says so. Buffer positions are
  natural numbers; where the source converts one to \<^verbatim>\<open>int\<close> the conversion is written
  out, and the theorems that depend on it say in which range they hold.
\<close>

subsection \<open>Machine integers\<close>

type_synonym uint8 = "8 word"

text \<open>
  \<^verbatim>\<open>static_cast<int>(pos)\<close> of a buffer position: the low 32 bits read as a two's
  complement number. It is the identity below \<open>2 ^ 31\<close>.
\<close>

definition static_cast_int :: "nat \<Rightarrow> int" where
  "static_cast_int n =
     (let m = int n mod 2 ^ 32 in if m < 2 ^ 31 then m else m - 2 ^ 32)"

text \<open>The \<^verbatim>\<open>%\<close> of C++ on \<^verbatim>\<open>int\<close>: the remainder has the sign of the dividend.\<close>

definition c_rem :: "int \<Rightarrow> int \<Rightarrow> int" where
  "c_rem a b = sgn a * (\<bar>a\<bar> mod \<bar>b\<bar>)"

subsection \<open>ByteBuffer\<close>

text \<open>
  Modelled from the spec: the ByteBuffer class (its source is not in ColumnWriter.cpp).
  The spec describes a growable byte buffer with independent read and write cursors,
  raw byte append, position reset and a contiguous view between the cursors. \<open>buf\<close> is
  the storage that \<^verbatim>\<open>getPointer()\<close> exposes, \<open>rpos\<close> and \<open>wpos\<close> are the cursors.
\<close>

record ByteBuffer =
  buf :: "uint8 list"
  rpos :: nat
  wpos :: nat

definition ByteBuffer_new :: ByteBuffer where
  "ByteBuffer_new = \<lparr>buf = [], rpos = 0, wpos = 0\<rparr>"

definition getReadPos :: "ByteBuffer \<Rightarrow> nat" where
  "getReadPos bb = rpos bb"

definition getWritePos :: "ByteBuffer \<Rightarrow> nat" where
  "getWritePos bb = wpos bb"

text \<open>
  Modelled from the spec: \<^verbatim>\<open>putBytes(src, len)\<close> writes the first \<open>len\<close> bytes found at
  \<open>src\<close> at the write cursor, growing the storage when needed, and advances the cursor by
  \<open>len\<close>. Bytes that an earlier \<^verbatim>\<open>resetPosition\<close> left behind the cursor are overwritten.
  (Reading more than \<open>length src\<close> bytes is undefined in C++; every theorem below calls
  it within range.)
\<close>

definition putBytes :: "ByteBuffer \<Rightarrow> uint8 list \<Rightarrow> nat \<Rightarrow> ByteBuffer" where
  "putBytes bb src len =
     bb\<lparr>buf := take (wpos bb) (buf bb) @ take len src @ drop (wpos bb + len) (buf bb),
        wpos := wpos bb + len\<rparr>"

text \<open>Modelled from the spec: \<^verbatim>\<open>resetPosition()\<close> rewinds both cursors and keeps the storage.\<close>

definition resetPosition :: "ByteBuffer \<Rightarrow> ByteBuffer" where
  "resetPosition bb = bb\<lparr>rpos := 0, wpos := 0\<rparr>"

text \<open>Modelled from the spec: \<^verbatim>\<open>clear()\<close> releases the storage.\<close>

definition clear :: "ByteBuffer \<Rightarrow> ByteBuffer" where
  "clear bb = bb\<lparr>buf := [], rpos := 0, wpos := 0\<rparr>"

text \<open>
  The bytes between the two cursors, that is the range
  \<^verbatim>\<open>[getPointer() + getReadPos(), getPointer() + getWritePos())\<close>.
\<close>

definition unconsumed :: "ByteBuffer \<Rightarrow> uint8 list" where
  "unconsumed bb = take (getWritePos bb - getReadPos bb) (drop (getReadPos bb) (buf bb))"

text \<open>The cursors of a buffer lie inside its storage, the read cursor first.\<close>

definition cursors_ok :: "ByteBuffer \<Rightarrow> bool" where
  "cursors_ok bb = (rpos bb \<le> wpos bb \<and> wpos bb \<le> length (buf bb))"

text \<open>
  Modelled from the spec: \<^verbatim>\<open>getWritePos() - getReadPos()\<close>. The spec gives the offsets
  as integers; the source subtracts them in the unsigned arithmetic of the cursors, so
  with the read cursor past the write cursor the difference wraps around (at
  \<open>2 ^ 32\<close>: write 1, read 3 gives \<open>2 ^ 32 - 2\<close>, which line 20 turns into \<open>-2\<close>).
\<close>

definition cursor_distance :: "nat \<Rightarrow> nat \<Rightarrow> nat" where
  "cursor_distance wp rp =
     (if rp \<le> wp then wp - rp else nat ((int wp - int rp) mod 2 ^ 32))"

text \<open>
  Modelled from the spec: the observers of the buffer as calls, each returning its
  result and the buffer it leaves. The spec lists \<^verbatim>\<open>getPointer\<close>, \<^verbatim>\<open>getReadPos\<close> and
  \<^verbatim>\<open>getWritePos\<close> as reading the buffer (its storage and its current offsets), so
  the buffer they leave is the buffer they found.
\<close>

definition getPointer_call :: "ByteBuffer \<Rightarrow> uint8 list \<times> ByteBuffer" where
  "getPointer_call bb = (buf bb, bb)"

definition getReadPos_call :: "ByteBuffer \<Rightarrow> nat \<times> ByteBuffer" where
  "getReadPos_call bb = (getReadPos bb, bb)"

definition getWritePos_call :: "ByteBuffer \<Rightarrow> nat \<times> ByteBuffer" where
  "getWritePos_call bb = (getWritePos bb, bb)"

text \<open>
  \<^verbatim>\<open>std::vector<uint8_t>(begin, end)\<close> for two pointers into the storage \<open>mem\<close>, at the
  indices \<open>b\<close> and \<open>e\<close>: a copy of the bytes from \<open>b\<close> up to \<open>e\<close>. (With \<open>e\<close> before
  \<open>b\<close> the constructor is undefined in C++; the copy is empty here.)
\<close>

definition vector_range :: "uint8 list \<Rightarrow> nat \<Rightarrow> nat \<Rightarrow> uint8 list" where
  "vector_range mem b e = take (e - b) (drop b mem)"

subsection \<open>BitUtils\<close>

datatype ByteOrder = PIXELS_BIG_ENDIAN | PIXELS_LITTLE_ENDIAN

text \<open>
  Modelled from the spec: \<^verbatim>\<open>BitUtils::bitWiseCompact(values, length, byteOrder)\<close>, whose
  source is not in ColumnWriter.cpp. The spec: it packs the first \<open>length\<close> booleans into
  \<open>ceil(length / 8)\<close> bytes, the bit order given by the byte order; a null at index 1 of
  a little-endian pixel packs to \<open>0b00000010\<close>. Big-endian fills each byte from its
  highest bit.
\<close>

fun packBits :: "ByteOrder \<Rightarrow> nat \<Rightarrow> bool list \<Rightarrow> uint8" where
  "packBits bo i [] = 0"
| "packBits bo i (v # vs) =
     (if v then push_bit (case bo of PIXELS_LITTLE_ENDIAN \<Rightarrow> i | PIXELS_BIG_ENDIAN \<Rightarrow> 7 - i) 1
      else 0) OR packBits bo (Suc i) vs"

fun groups8 :: "'a list \<Rightarrow> 'a list list" where
  "groups8 [] = []"
| "groups8 (x # xs) = take 8 (x # xs) # groups8 (drop 8 (x # xs))"

definition bitWiseCompact :: "bool list \<Rightarrow> int \<Rightarrow> ByteOrder \<Rightarrow> uint8 list" where
  "bitWiseCompact values len bo = map (packBits bo 0) (groups8 (take (nat len) values))"

subsection \<open>StatsRecorder and the protocol-buffer messages\<close>

text \<open>
  Modelled from the spec: the statistics recorder (capabilities: mark has-null, merge,
  reset, serialize) and the messages \<^verbatim>\<open>ColumnStatistic\<close>, \<^verbatim>\<open>PixelStatistic\<close> and
  \<^verbatim>\<open>ColumnChunkIndex\<close>, plain data records none of whose sources is in
  ColumnWriter.cpp. The recorder of this layer counts values and remembers whether a
  null was seen; merging adds the counts and joins the flags.
\<close>

record StatsRecorder =
  numberOfValues :: int
  rec_hasNull :: bool

definition StatsRecorder_new :: StatsRecorder where
  "StatsRecorder_new = \<lparr>numberOfValues = 0, rec_hasNull = False\<rparr>"

definition setHasNull :: "StatsRecorder \<Rightarrow> StatsRecorder" where
  "setHasNull r = r\<lparr>rec_hasNull := True\<rparr>"

definition merge :: "StatsRecorder \<Rightarrow> StatsRecorder \<Rightarrow> StatsRecorder" where
  "merge r other =
     r\<lparr>numberOfValues := numberOfValues r + numberOfValues other,
       rec_hasNull := (rec_hasNull r \<or> rec_hasNull other)\<rparr>"

definition reset_recorder :: "StatsRecorder \<Rightarrow> StatsRecorder" where
  "reset_recorder r = r\<lparr>numberOfValues := 0, rec_hasNull := False\<rparr>"

record ColumnStatistic =
  stat_numberOfValues :: int
  stat_hasNull :: bool

definition ColumnStatistic_default :: ColumnStatistic where
  "ColumnStatistic_default = \<lparr>stat_numberOfValues = 0, stat_hasNull = False\<rparr>"

definition serialize :: "StatsRecorder \<Rightarrow> ColumnStatistic" where
  "serialize r = \<lparr>stat_numberOfValues = numberOfValues r, stat_hasNull = rec_hasNull r\<rparr>"

record PixelStatistic =
  statistic :: ColumnStatistic

record ColumnChunkIndex =
  littleEndian :: bool
  idx_nullsPadding :: bool
  isNullAlignment :: int
  isNullOffset :: int
  pixelPositions :: "int list"
  pixelStatistics :: "PixelStatistic list"

text \<open>
  Modelled from the spec: the generated accessors of the messages, which are not in
  ColumnWriter.cpp. The spec treats the messages as plain data records and says that
  \<^verbatim>\<open>reset\<close> clears the index record: a default-constructed message has every field at
  its default, \<^verbatim>\<open>Clear()\<close> returns a message to that state, a setter writes one field
  and an adder appends to a repeated field.
\<close>

definition ColumnChunkIndex_default :: ColumnChunkIndex where
  "ColumnChunkIndex_default =
     \<lparr>littleEndian = False, idx_nullsPadding = False, isNullAlignment = 0,
      isNullOffset = 0, pixelPositions = [], pixelStatistics = []\<rparr>"

definition Clear :: "ColumnChunkIndex \<Rightarrow> ColumnChunkIndex" where
  "Clear idx = ColumnChunkIndex_default"

definition Clear_stat :: "ColumnStatistic \<Rightarrow> ColumnStatistic" where
  "Clear_stat st = ColumnStatistic_default"

definition set_littleendian :: "ColumnChunkIndex \<Rightarrow> bool \<Rightarrow> ColumnChunkIndex" where
  "set_littleendian idx b = idx\<lparr>littleEndian := b\<rparr>"

definition set_nullspadding :: "ColumnChunkIndex \<Rightarrow> bool \<Rightarrow> ColumnChunkIndex" where
  "set_nullspadding idx b = idx\<lparr>idx_nullsPadding := b\<rparr>"

definition set_isnullalignment :: "ColumnChunkIndex \<Rightarrow> int \<Rightarrow> ColumnChunkIndex" where
  "set_isnullalignment idx a = idx\<lparr>isNullAlignment := a\<rparr>"

definition set_isnulloffset :: "ColumnChunkIndex \<Rightarrow> int \<Rightarrow> ColumnChunkIndex" where
  "set_isnulloffset idx off = idx\<lparr>isNullOffset := off\<rparr>"

definition add_pixelpositions :: "ColumnChunkIndex \<Rightarrow> int \<Rightarrow> ColumnChunkIndex" where
  "add_pixelpositions idx p = idx\<lparr>pixelPositions := pixelPositions idx @ [p]\<rparr>"

definition add_pixelstatistics :: "ColumnChunkIndex \<Rightarrow> PixelStatistic \<Rightarrow> ColumnChunkIndex" where
  "add_pixelstatistics idx ps = idx\<lparr>pixelStatistics := pixelStatistics idx @ [ps]\<rparr>"

subsection \<open>ColumnWriter\<close>

text \<open>
  Modelled from the spec: the writer options and the members of the writer, declared in
  headers that are not in ColumnWriter.cpp; the members are those the file reads and
  writes. \<open>outputStream\<close>, \<open>isNullStream\<close>, \<open>columnChunkIndex\<close> and \<open>columnChunkStat\<close>
  are shared pointers in the source; the two buffers are allocated separately by the
  constructor and never alias, so each is a field of its own.
\<close>

record PixelsWriterOption =
  pixelsStride :: int
  opt_encodingLevel :: int
  opt_byteOrder :: ByteOrder

record ColumnWriter =
  pixelStride :: int
  encodingLevel :: int
  byteOrder :: ByteOrder
  nullsPadding :: bool
  isNull :: "bool list"
  outputStream :: ByteBuffer
  isNullStream :: ByteBuffer
  columnChunkIndex :: ColumnChunkIndex
  columnChunkStat :: ColumnStatistic
  pixelStatRecorder :: StatsRecorder
  columnChunkStatRecorder :: StatsRecorder
  lastPixelPosition :: int
  curPixelPosition :: int
  curPixelEleIndex :: int
  curPixelVectorIndex :: int
  curPixelIsNullIndex :: int
  hasNull :: bool

text \<open>
  \<^verbatim>\<open>ISNULL_ALIGNMENT\<close> is read once from the configuration; it is a parameter \<open>A\<close> of
  the functions that use it. \<^verbatim>\<open>ISNULL_PADDING_BUFFER\<close> is that many zero bytes.
\<close>

definition ISNULL_PADDING_BUFFER :: "int \<Rightarrow> uint8 list" where
  "ISNULL_PADDING_BUFFER A = replicate (nat A) 0"

text \<open>
  The constructor (lines 93 to 108). Modelled from the spec: the members it does not
  mention (the positions, the counters, \<open>hasNull\<close>, the recorders and the chunk
  statistic) take the initial values of their declarations in the header, which the
  spec gives as zero, unset and empty.
\<close>

definition ColumnWriter_init :: "int \<Rightarrow> PixelsWriterOption \<Rightarrow> ColumnWriter" where
  "ColumnWriter_init A writerOption =
     \<lparr>pixelStride = pixelsStride writerOption,
      encodingLevel = opt_encodingLevel writerOption,
      byteOrder = opt_byteOrder writerOption,
      nullsPadding = False,
      isNull = replicate (nat (pixelsStride writerOption)) False,
      outputStream = ByteBuffer_new,
      isNullStream = ByteBuffer_new,
      columnChunkIndex =
        set_isnullalignment
          (set_nullspadding
            (set_littleendian ColumnChunkIndex_default
              (opt_byteOrder writerOption = PIXELS_LITTLE_ENDIAN))
            False)
          A,
      columnChunkStat = ColumnStatistic_default,
      pixelStatRecorder = StatsRecorder_new,
      columnChunkStatRecorder = StatsRecorder_new,
      lastPixelPosition = 0,
      curPixelPosition = 0,
      curPixelEleIndex = 0,
      curPixelVectorIndex = 0,
      curPixelIsNullIndex = 0,
      hasNull = False\<rparr>"

text \<open>
  \<^verbatim>\<open>getColumnChunkContent\<close> (lines 13 to 17) and \<^verbatim>\<open>getColumnChunkSize\<close> (19 to 21),
  call by call. The members are reached through shared pointers, so that the
  \<^verbatim>\<open>const\<close> of the two functions does not by itself keep the buffer as it is: each
  call on the buffer hands the buffer on to the next, and the function returns its
  result together with the writer it leaves.
\<close>

definition getColumnChunkContent_call :: "ColumnWriter \<Rightarrow> uint8 list \<times> ColumnWriter" where
  "getColumnChunkContent_call w0 =
     (let (p1, os1) = getPointer_call (outputStream w0);
          (r, os2) = getReadPos_call os1;
          (p2, os3) = getPointer_call os2;
          (wp, os4) = getWritePos_call os3
      in (vector_range p2 r wp, w0\<lparr>outputStream := os4\<rparr>))"

definition getColumnChunkSize_call :: "ColumnWriter \<Rightarrow> int \<times> ColumnWriter" where
  "getColumnChunkSize_call w0 =
     (let (wp, os1) = getWritePos_call (outputStream w0);
          (r, os2) = getReadPos_call os1
      in (static_cast_int (cursor_distance wp r), w0\<lparr>outputStream := os2\<rparr>))"

text \<open>The values the two calls return.\<close>

definition getColumnChunkContent :: "ColumnWriter \<Rightarrow> uint8 list" where
  "getColumnChunkContent w = fst (getColumnChunkContent_call w)"

definition getColumnChunkSize :: "ColumnWriter \<Rightarrow> int" where
  "getColumnChunkSize w = fst (getColumnChunkSize_call w)"

definition getNewColumnChunkIndex :: "ColumnWriter \<Rightarrow> ColumnChunkIndex" where
  "getNewColumnChunkIndex w = ColumnChunkIndex_default"

definition getColumnChunkIndex :: "ColumnWriter \<Rightarrow> ColumnChunkIndex" where
  "getColumnChunkIndex w = columnChunkIndex w"

text \<open>\<^verbatim>\<open>newPixel\<close> (lines 51 to 73), statement by statement.\<close>

definition newPixel :: "ColumnWriter \<Rightarrow> ColumnWriter" where
  "newPixel w0 =
     (let w1 =
        (if hasNull w0 then
           (let compacted = bitWiseCompact (isNull w0) (curPixelIsNullIndex w0) (byteOrder w0)
            in w0\<lparr>isNullStream := putBytes (isNullStream w0) compacted (length compacted),
                  pixelStatRecorder := setHasNull (pixelStatRecorder w0)\<rparr>)
         else w0);
        w2 = w1\<lparr>curPixelPosition := static_cast_int (getWritePos (outputStream w1)),
                curPixelEleIndex := 0,
                curPixelVectorIndex := 0,
                curPixelIsNullIndex := 0\<rparr>;
        w3 = w2\<lparr>columnChunkStatRecorder :=
                  merge (columnChunkStatRecorder w2) (pixelStatRecorder w2)\<rparr>;
        pixelStat = \<lparr>statistic = serialize (pixelStatRecorder w3)\<rparr>;
        w4 = w3\<lparr>columnChunkIndex :=
                  add_pixelstatistics
                    (add_pixelpositions (columnChunkIndex w3) (lastPixelPosition w3))
                    pixelStat\<rparr>
      in w4\<lparr>lastPixelPosition := curPixelPosition w4,
            pixelStatRecorder := reset_recorder (pixelStatRecorder w4),
            hasNull := False\<rparr>)"

text \<open>\<^verbatim>\<open>flush\<close> (lines 37 to 49).\<close>

definition flush :: "int \<Rightarrow> ColumnWriter \<Rightarrow> ColumnWriter" where
  "flush A w0 =
     (let w1 = (if curPixelEleIndex w0 > 0 then newPixel w0 else w0);
          isNullOffset0 = static_cast_int (getWritePos (outputStream w1));
          (os, isNullOffset1) =
            (if A \<noteq> 0 \<and> c_rem isNullOffset0 A \<noteq> 0 then
               (let alignBytes = A - c_rem isNullOffset0 A
                in (putBytes (outputStream w1) (ISNULL_PADDING_BUFFER A) (nat alignBytes),
                    isNullOffset0 + alignBytes))
             else (outputStream w1, isNullOffset0));
          w2 = w1\<lparr>outputStream := os,
                  columnChunkIndex := set_isnulloffset (columnChunkIndex w1) isNullOffset1\<rparr>
      in w2\<lparr>outputStream :=
              putBytes (outputStream w2)
                (drop (getReadPos (isNullStream w2)) (buf (isNullStream w2)))
                (cursor_distance (getWritePos (isNullStream w2))
                   (getReadPos (isNullStream w2)))\<rparr>)"

text \<open>\<^verbatim>\<open>reset\<close> (lines 75 to 84) and \<^verbatim>\<open>close\<close> (86 to 89).\<close>

definition reset :: "ColumnWriter \<Rightarrow> ColumnWriter" where
  "reset w =
     w\<lparr>lastPixelPosition := 0,
       curPixelPosition := 0,
       columnChunkIndex := Clear (columnChunkIndex w),
       columnChunkStat := Clear_stat (columnChunkStat w),
       pixelStatRecorder := reset_recorder (pixelStatRecorder w),
       columnChunkStatRecorder := reset_recorder (columnChunkStatRecorder w),
       outputStream := resetPosition (outputStream w),
       isNullStream := resetPosition (isNullStream w)\<rparr>"

definition close :: "ColumnWriter \<Rightarrow> ColumnWriter" where
  "close w = w\<lparr>outputStream := clear (outputStream w), isNullStream := clear (isNullStream w)\<rparr>"

subsection \<open>Notions used to state the properties\<close>

text \<open>
  The recorder of the pixel being closed, as \<^verbatim>\<open>newPixel\<close> merges and serializes it:
  lines 52 to 56 mark it first when the pixel has a null.
\<close>

definition closing_recorder :: "ColumnWriter \<Rightarrow> StatsRecorder" where
  "closing_recorder w =
     (if hasNull w then setHasNull (pixelStatRecorder w) else pixelStatRecorder w)"

text \<open>The writer after lines 38 to 40 of \<^verbatim>\<open>flush\<close>: a pending partial pixel is closed.\<close>

definition pending_closed :: "ColumnWriter \<Rightarrow> ColumnWriter" where
  "pending_closed w = (if 0 < curPixelEleIndex w then newPixel w else w)"

text \<open>The number of padding bytes of lines 42 and 43, for a write offset \<open>off\<close>.\<close>

definition alignBytes_of :: "int \<Rightarrow> nat \<Rightarrow> nat" where
  "alignBytes_of A off = (if A \<noteq> 0 \<and> int off mod A \<noteq> 0 then nat (A - int off mod A) else 0)"

text \<open>
  Between two pixel boundaries a typed column writer appends values; that code is not part
  of this file. Such a step is any function on the writer that leaves the index and
  \<open>lastPixelPosition\<close> alone. \<open>newPixels es\<close> runs the steps \<open>es\<close>, each followed by
  \<^verbatim>\<open>newPixel\<close>, and \<open>boundaries es\<close> lists the write offset of the value buffer at each
  of these calls.
\<close>

definition keeps_index :: "(ColumnWriter \<Rightarrow> ColumnWriter) \<Rightarrow> bool" where
  "keeps_index e =
     (\<forall>w. columnChunkIndex (e w) = columnChunkIndex w
        \<and> lastPixelPosition (e w) = lastPixelPosition w)"

fun newPixels :: "(ColumnWriter \<Rightarrow> ColumnWriter) list \<Rightarrow> ColumnWriter \<Rightarrow> ColumnWriter" where
  "newPixels [] w = w"
| "newPixels (e # es) w = newPixels es (newPixel (e w))"

fun boundaries :: "(ColumnWriter \<Rightarrow> ColumnWriter) list \<Rightarrow> ColumnWriter \<Rightarrow> int list" where
  "boundaries [] w = []"
| "boundaries (e # es) w =
     static_cast_int (getWritePos (outputStream (e w))) # boundaries es (newPixel (e w))"

text \<open>
  The member functions of the file as calls, and the writer each leaves. The two
  accessors of the chunk leave the writer their calls on the buffer leave;
  \<^verbatim>\<open>getNewColumnChunkIndex\<close>, \<^verbatim>\<open>getColumnChunkIndex\<close> and \<^verbatim>\<open>getColumnChunkEncoding\<close>
  call nothing and assign no member.
\<close>

datatype call =
    GetColumnChunkContent | GetColumnChunkSize | GetNewColumnChunkIndex
  | GetColumnChunkIndex | GetColumnChunkEncoding | Flush | NewPixel | Reset | Close

fun exec :: "int \<Rightarrow> call \<Rightarrow> ColumnWriter \<Rightarrow> ColumnWriter" where
  "exec A Flush w = flush A w"
| "exec A NewPixel w = newPixel w"
| "exec A Reset w = reset w"
| "exec A Close w = close w"
| "exec A GetColumnChunkContent w = snd (getColumnChunkContent_call w)"
| "exec A GetColumnChunkSize w = snd (getColumnChunkSize_call w)"
| "exec A _ w = w"

fun run :: "int \<Rightarrow> call list \<Rightarrow> ColumnWriter \<Rightarrow> ColumnWriter" where
  "run A [] w = w"
| "run A (c # cs) w = run A cs (exec A c w)"

definition index_parity :: "ColumnWriter \<Rightarrow> bool" where
  "index_parity w =
     (length (pixelPositions (columnChunkIndex w)) = length (pixelStatistics (columnChunkIndex w)))"

subsection \<open>A worked scenario\<close>

text \<open>
  Stride 2, little-endian, alignment 4. \<open>scenario_rows12\<close> is the writer when a typed
  writer has written the rows 1 and null (one value byte each) into the first pixel;
  \<open>scenario_row3\<close> is the writer after the pixel was closed and a third, non-null row
  was written. \<open>scenario_write\<close> appends value bytes as a typed writer would.
\<close>

definition scenario_option :: PixelsWriterOption where
  "scenario_option =
     \<lparr>pixelsStride = 2, opt_encodingLevel = 0, opt_byteOrder = PIXELS_LITTLE_ENDIAN\<rparr>"

definition scenario_rows12 :: ColumnWriter where
  "scenario_rows12 =
     (ColumnWriter_init 4 scenario_option)
       \<lparr>outputStream := \<lparr>buf = [1, 2], rpos = 0, wpos = 2\<rparr>,
        isNull := [False, True],
        hasNull := True,
        curPixelEleIndex := 2,
        curPixelIsNullIndex := 2\<rparr>"

definition scenario_row3 :: ColumnWriter where
  "scenario_row3 =
     (newPixel scenario_rows12)
       \<lparr>outputStream := \<lparr>buf = [1, 2, 3], rpos = 0, wpos = 3\<rparr>,
        isNull := [False, True],
        curPixelEleIndex := 1,
        curPixelIsNullIndex := 1\<rparr>"

definition scenario_write :: "uint8 list \<Rightarrow> ColumnWriter \<Rightarrow> ColumnWriter" where
  "scenario_write bs w = w\<lparr>outputStream := putBytes (outputStream w) bs (length bs)\<rparr>"

section \<open>Basic facts\<close>

subsection \<open>Integers\<close>

lemma static_cast_int_id: "n < 2 ^ 31 \<Longrightarrow> static_cast_int n = int n"
  by (simp add: static_cast_int_def Let_def)

lemma c_rem_nonneg: "0 \<le> a \<Longrightarrow> 0 \<le> b \<Longrightarrow> c_rem a b = a mod b"
  by (cases "a = 0") (simp_all add: c_rem_def)

lemma alignBytes_of_less: "0 < A \<Longrightarrow> alignBytes_of A off < nat A"
proof -
  assume "0 < A"
  then have "0 \<le> int off mod A" by simp
  then have "int off mod A \<noteq> 0 \<Longrightarrow> 0 < int off mod A" by linarith
  then show ?thesis using \<open>0 < A\<close> by (auto simp: alignBytes_of_def)
qed

lemma alignBytes_of_zero: "alignBytes_of 0 off = 0"
  by (simp add: alignBytes_of_def)

lemma alignBytes_of_dvd: "0 < A \<Longrightarrow> A dvd int off + int (alignBytes_of A off)"
proof (cases "int off mod A = 0")
  case True
  then show ?thesis by (simp add: alignBytes_of_def dvd_eq_mod_eq_0)
next
  case False
  assume "0 < A"
  then have "int off mod A \<le> A" by (simp add: less_imp_le)
  then have "int off + int (alignBytes_of A off) = int off - int off mod A + A"
    using False \<open>0 < A\<close> by (simp add: alignBytes_of_def)
  also have "\<dots> = A * (int off div A) + A"
    by (simp add: minus_mod_eq_mult_div)
  finally show ?thesis by simp
qed

subsection \<open>The bit packer\<close>

lemma length_groups8: "length (groups8 xs) = (length xs + 7) div 8"
proof (induction xs rule: groups8.induct)
  case 1
  show ?case by simp
next
  case (2 x xs)
  then show ?case by (simp del: drop_Suc_Cons take_Suc_Cons) arith
qed

lemma length_bitWiseCompact:
  "nat n \<le> length vs \<Longrightarrow> length (bitWiseCompact vs n bo) = (nat n + 7) div 8"
  by (simp add: bitWiseCompact_def length_groups8)

subsection \<open>The byte buffer\<close>

lemma unconsumed_putBytes:
  "cursors_ok bb \<Longrightarrow> n \<le> length src \<Longrightarrow>
   unconsumed (putBytes bb src n) = unconsumed bb @ take n src"
  by (simp add: unconsumed_def putBytes_def cursors_ok_def getWritePos_def getReadPos_def
      take_drop)

lemma cursors_ok_putBytes:
  "cursors_ok bb \<Longrightarrow> n \<le> length src \<Longrightarrow> cursors_ok (putBytes bb src n)"
  by (simp add: putBytes_def cursors_ok_def)

lemma putBytes_zero: "putBytes bb src 0 = bb"
  by (simp add: putBytes_def)

lemma getWritePos_putBytes: "getWritePos (putBytes bb src n) = getWritePos bb + n"
  by (simp add: putBytes_def getWritePos_def)

lemma getReadPos_putBytes: "getReadPos (putBytes bb src n) = getReadPos bb"
  by (simp add: putBytes_def getReadPos_def)

lemma unconsumed_length:
  "cursors_ok bb \<Longrightarrow> length (unconsumed bb) = getWritePos bb - getReadPos bb"
  by (auto simp: unconsumed_def cursors_ok_def getWritePos_def getReadPos_def)

lemma cursor_distance_ok:
  "cursors_ok bb \<Longrightarrow>
   cursor_distance (getWritePos bb) (getReadPos bb) = getWritePos bb - getReadPos bb"
  by (simp add: cursor_distance_def cursors_ok_def getWritePos_def getReadPos_def)

lemma cursor_distance_wraps: "static_cast_int (cursor_distance 1 3) = - 2"
  by (simp add: cursor_distance_def static_cast_int_def)

subsection \<open>The accessors of the chunk\<close>

lemma getColumnChunkContent_call_frame: "snd (getColumnChunkContent_call w) = w"
  by (simp add: getColumnChunkContent_call_def getPointer_call_def getReadPos_call_def
      getWritePos_call_def)

lemma getColumnChunkSize_call_frame: "snd (getColumnChunkSize_call w) = w"
  by (simp add: getColumnChunkSize_call_def getReadPos_call_def getWritePos_call_def)

lemma getColumnChunkContent_unconsumed: "getColumnChunkContent w = unconsumed (outputStream w)"
  by (simp add: getColumnChunkContent_def getColumnChunkContent_call_def getPointer_call_def
      getReadPos_call_def getWritePos_call_def vector_range_def unconsumed_def)

text \<open>With the read cursor at 3 and the write cursor at 1, line 20 returns \<open>-2\<close>.\<close>

lemma getColumnChunkSize_read_past_write:
  "getColumnChunkSize (w\<lparr>outputStream := \<lparr>buf = [1, 2, 3], rpos = 3, wpos = 1\<rparr>\<rparr>) = - 2"
  by (simp add: getColumnChunkSize_def getColumnChunkSize_call_def getReadPos_call_def
      getWritePos_call_def getReadPos_def getWritePos_def cursor_distance_def
      static_cast_int_def)

subsection \<open>What newPixel does to each member\<close>

lemma newPixel_outputStream: "outputStream (newPixel w) = outputStream w"
  by (simp add: newPixel_def Let_def)

lemma newPixel_isNullStream:
  "isNullStream (newPixel w) =
     (if hasNull w
      then putBytes (isNullStream w)
             (bitWiseCompact (isNull w) (curPixelIsNullIndex w) (byteOrder w))
             (length (bitWiseCompact (isNull w) (curPixelIsNullIndex w) (byteOrder w)))
      else isNullStream w)"
  by (simp add: newPixel_def Let_def)

lemma newPixel_columnChunkIndex:
  "columnChunkIndex (newPixel w) =
     (columnChunkIndex w)
       \<lparr>pixelPositions := pixelPositions (columnChunkIndex w) @ [lastPixelPosition w],
        pixelStatistics := pixelStatistics (columnChunkIndex w)
          @ [\<lparr>statistic = serialize (closing_recorder w)\<rparr>]\<rparr>"
  by (simp add: newPixel_def Let_def add_pixelpositions_def add_pixelstatistics_def
      closing_recorder_def)

lemma newPixel_lastPixelPosition:
  "lastPixelPosition (newPixel w) = static_cast_int (getWritePos (outputStream w))"
  by (simp add: newPixel_def Let_def)

lemma newPixel_columnChunkStatRecorder:
  "columnChunkStatRecorder (newPixel w) = merge (columnChunkStatRecorder w) (closing_recorder w)"
  by (simp add: newPixel_def Let_def closing_recorder_def)


lemma newPixel_counters:
  "curPixelEleIndex (newPixel w) = 0" "curPixelVectorIndex (newPixel w) = 0"
  "curPixelIsNullIndex (newPixel w) = 0" "hasNull (newPixel w) = False"
  "curPixelPosition (newPixel w) = static_cast_int (getWritePos (outputStream w))"
  by (simp_all add: newPixel_def Let_def)

lemma newPixels_positions:
  "\<forall>e \<in> set es. keeps_index e \<Longrightarrow>
   pixelPositions (columnChunkIndex (newPixels es w)) =
     pixelPositions (columnChunkIndex w) @ take (length es) (lastPixelPosition w # boundaries es w)"
proof (induction es arbitrary: w)
  case Nil
  show ?case by simp
next
  case (Cons e es)
  from Cons.prems have e: "keeps_index e" and es: "\<forall>e \<in> set es. keeps_index e"
    by simp_all
  from e have idx: "columnChunkIndex (e w) = columnChunkIndex w"
    and lpp: "lastPixelPosition (e w) = lastPixelPosition w"
    by (simp_all add: keeps_index_def)
  show ?case
    by (simp add: Cons.IH [OF es] newPixel_columnChunkIndex newPixel_lastPixelPosition idx lpp)
qed

subsection \<open>What reset and flush do to each member\<close>

lemma reset_index_empty:
  "pixelPositions (columnChunkIndex (reset w)) = []"
  "pixelStatistics (columnChunkIndex (reset w)) = []"
  "lastPixelPosition (reset w) = 0"
  by (simp_all add: reset_def Clear_def ColumnChunkIndex_default_def)

lemma pending_closed_outputStream: "outputStream (pending_closed w) = outputStream w"
  by (simp add: pending_closed_def newPixel_outputStream)

lemma cursors_ok_pending_closed:
  "cursors_ok (isNullStream w) \<Longrightarrow> cursors_ok (isNullStream (pending_closed w))"
  by (simp add: pending_closed_def newPixel_isNullStream cursors_ok_putBytes)

lemma flush_columnChunkIndex:
  "pixelPositions (columnChunkIndex (flush A w)) =
     pixelPositions (columnChunkIndex (pending_closed w))"
  "pixelStatistics (columnChunkIndex (flush A w)) =
     pixelStatistics (columnChunkIndex (pending_closed w))"
  by (simp_all add: flush_def pending_closed_def Let_def set_isnulloffset_def split: prod.splits)

lemma flush_isNullStream: "isNullStream (flush A w) = isNullStream (pending_closed w)"
  by (simp add: flush_def pending_closed_def Let_def split: prod.splits)

lemma flush_frame:
  "columnChunkStatRecorder (flush A w) = columnChunkStatRecorder (pending_closed w)"
  "pixelStatRecorder (flush A w) = pixelStatRecorder (pending_closed w)"
  "lastPixelPosition (flush A w) = lastPixelPosition (pending_closed w)"
  "hasNull (flush A w) = hasNull (pending_closed w)"
  by (simp_all add: flush_def pending_closed_def Let_def split: prod.splits)

text \<open>
  Within the range of \<^verbatim>\<open>int\<close> and for an alignment that is not negative, \<^verbatim>\<open>flush\<close> is:
  close the pending pixel, pad, record the offset, append the bitmap.
\<close>

lemma flush_in_range:
  assumes "0 \<le> A" and "int (getWritePos (outputStream w)) + A < 2 ^ 31"
  shows "flush A w =
    (pending_closed w)
      \<lparr>outputStream :=
         putBytes
           (putBytes (outputStream w) (ISNULL_PADDING_BUFFER A)
              (alignBytes_of A (getWritePos (outputStream w))))
           (drop (getReadPos (isNullStream (pending_closed w)))
              (buf (isNullStream (pending_closed w))))
           (cursor_distance (getWritePos (isNullStream (pending_closed w)))
              (getReadPos (isNullStream (pending_closed w)))),
       columnChunkIndex :=
         set_isnulloffset (columnChunkIndex (pending_closed w))
           (int (getWritePos (outputStream w))
              + int (alignBytes_of A (getWritePos (outputStream w))))\<rparr>"
proof -
  have os: "outputStream (pending_closed w) = outputStream w"
    by (rule pending_closed_outputStream)
  have "int (getWritePos (outputStream w)) < 2 ^ 31"
    using assms by linarith
  then have lt: "getWritePos (outputStream w) < 2 ^ 31"
    by simp
  have cast: "static_cast_int (getWritePos (outputStream w)) = int (getWritePos (outputStream w))"
    using lt by (rule static_cast_int_id)
  have rem: "c_rem (int (getWritePos (outputStream w))) A = int (getWritePos (outputStream w)) mod A"
    using assms(1) by (simp add: c_rem_nonneg)
  have le: "A \<noteq> 0 \<Longrightarrow> int (getWritePos (outputStream w)) mod A \<le> A"
    using assms(1) by (simp add: less_imp_le)
  show ?thesis
    unfolding flush_def pending_closed_def [symmetric]
    by (simp add: Let_def os cast rem alignBytes_of_def putBytes_zero le)
qed

lemma flush_offsets:
  assumes "0 \<le> A" and "int (getWritePos (outputStream w)) + A < 2 ^ 31"
  shows "isNullOffset (columnChunkIndex (flush A w)) =
      int (getWritePos (outputStream w)) + int (alignBytes_of A (getWritePos (outputStream w)))"
    and "getWritePos (outputStream (flush A w)) =
      getWritePos (outputStream w) + alignBytes_of A (getWritePos (outputStream w))
        + cursor_distance (getWritePos (isNullStream (flush A w)))
            (getReadPos (isNullStream (flush A w)))"
    and "getReadPos (outputStream (flush A w)) = getReadPos (outputStream w)"
  by (simp_all add: flush_isNullStream flush_in_range [OF assms] set_isnulloffset_def
      getWritePos_putBytes getReadPos_putBytes)

text \<open>
  The bytes of the chunk after \<^verbatim>\<open>flush\<close>: the old ones, the bytes taken from the
  padding buffer, the bitmap.
\<close>

lemma flush_content:
  assumes "0 \<le> A" and "int (getWritePos (outputStream w)) + A < 2 ^ 31"
    and "cursors_ok (outputStream w)" and "cursors_ok (isNullStream w)"
    and pad_le: "alignBytes_of A (getWritePos (outputStream w)) \<le> length (ISNULL_PADDING_BUFFER A)"
  shows "getColumnChunkContent (flush A w) =
      getColumnChunkContent w
        @ take (alignBytes_of A (getWritePos (outputStream w))) (ISNULL_PADDING_BUFFER A)
        @ unconsumed (isNullStream (flush A w))"
proof -
  let ?off = "getWritePos (outputStream w)"
  let ?pad = "alignBytes_of A ?off"
  let ?ins = "isNullStream (pending_closed w)"
  have ins_ok: "cursors_ok ?ins"
    using assms(4) by (rule cursors_ok_pending_closed)
  have dist: "cursor_distance (getWritePos ?ins) (getReadPos ?ins) =
      getWritePos ?ins - getReadPos ?ins"
    using ins_ok by (rule cursor_distance_ok)
  from ins_ok
  have n_le: "getWritePos ?ins - getReadPos ?ins \<le> length (drop (getReadPos ?ins) (buf ?ins))"
    by (auto simp: cursors_ok_def getWritePos_def getReadPos_def intro: diff_le_mono)
  have padded_ok: "cursors_ok (putBytes (outputStream w) (ISNULL_PADDING_BUFFER A) ?pad)"
    using assms(3) pad_le by (rule cursors_ok_putBytes)
  show ?thesis
    by (simp add: getColumnChunkContent_unconsumed flush_in_range [OF assms(1,2)] dist
        unconsumed_putBytes [OF padded_ok n_le] unconsumed_putBytes [OF assms(3) pad_le])
      (simp add: unconsumed_def)
qed

subsection \<open>Sequences of calls\<close>

lemma exec_parity: "index_parity w \<Longrightarrow> index_parity (exec A c w)"
  by (cases c)
    (simp_all add: index_parity_def flush_columnChunkIndex pending_closed_def
      newPixel_columnChunkIndex reset_index_empty close_def
      getColumnChunkContent_call_frame getColumnChunkSize_call_frame)

lemma run_parity: "index_parity w \<Longrightarrow> index_parity (run A cs w)"
  by (induction cs arbitrary: w) (simp_all add: exec_parity)

subsection \<open>Unfolding the scenario\<close>

lemmas scenario_defs =
  scenario_option_def scenario_rows12_def scenario_row3_def ColumnWriter_init_def
  ByteBuffer_new_def StatsRecorder_new_def ColumnStatistic_default_def
  ColumnChunkIndex_default_def set_isnullalignment_def set_nullspadding_def
  set_littleendian_def

lemmas eval_defs =
  newPixel_def flush_def reset_def close_def Let_def static_cast_int_def c_rem_def
  putBytes_def getWritePos_def getReadPos_def resetPosition_def clear_def unconsumed_def
  cursors_ok_def bitWiseCompact_def setHasNull_def merge_def reset_recorder_def serialize_def
  Clear_def Clear_stat_def set_isnulloffset_def add_pixelpositions_def add_pixelstatistics_def
  ISNULL_PADDING_BUFFER_def getColumnChunkContent_def getColumnChunkSize_def
  getColumnChunkContent_call_def getColumnChunkSize_call_def getPointer_call_def
  getReadPos_call_def getWritePos_call_def vector_range_def cursor_distance_def

section \<open>Properties\<close>

subsection \<open>Pixel positions\<close>

text \<open>
  C1. Every \<^verbatim>\<open>newPixel\<close> appends to \<open>pixelPositions\<close> the value that
  \<open>lastPixelPosition\<close> had before the call, and only then sets \<open>lastPixelPosition\<close> to
  the write offset of the value buffer (as an \<^verbatim>\<open>int\<close>; the offset itself below \<open>2 ^ 31\<close>).
  Hence, over any run of pixels, the positions recorded are the starting
  \<open>lastPixelPosition\<close> followed by the write offsets at the earlier boundaries: entry \<open>i\<close>
  is the offset at boundary \<open>i - 1\<close>, and after a reset the first entry is 0.
\<close>

theorem newPixel_position_lag:
  "pixelPositions (columnChunkIndex (newPixel w)) =
     pixelPositions (columnChunkIndex w) @ [lastPixelPosition w]
   \<and> lastPixelPosition (newPixel w) = static_cast_int (getWritePos (outputStream w))
   \<and> (getWritePos (outputStream w) < 2 ^ 31 \<longrightarrow>
        lastPixelPosition (newPixel w) = int (getWritePos (outputStream w)))
   \<and> ((\<forall>e \<in> set es. keeps_index e) \<longrightarrow>
        pixelPositions (columnChunkIndex (newPixels es w)) =
          pixelPositions (columnChunkIndex w)
            @ take (length es) (lastPixelPosition w # boundaries es w)
        \<and> pixelPositions (columnChunkIndex (newPixels es (reset w))) =
            take (length es) (0 # boundaries es (reset w)))"
  by (simp add: newPixel_columnChunkIndex newPixel_lastPixelPosition static_cast_int_id
      newPixels_positions reset_index_empty)

theorem newPixel_position_lag_witness:
  "keeps_index (scenario_write [1, 2]) \<and> keeps_index (scenario_write [3])
   \<and> pixelPositions (columnChunkIndex
        (newPixels [scenario_write [1, 2], scenario_write [3]] (reset scenario_row3))) = [0, 2]
   \<and> getWritePos (outputStream scenario_row3) < 2 ^ 31
   \<and> lastPixelPosition (newPixel scenario_row3) = 3
   \<and> pixelPositions (columnChunkIndex (newPixel scenario_row3)) = [0, 2]"
proof -
  have keeps: "keeps_index (scenario_write bs)" for bs
    by (simp add: keeps_index_def scenario_write_def)
  have lt: "getWritePos (outputStream scenario_row3) < 2 ^ 31"
    by (simp add: scenario_defs getWritePos_def)
  from newPixel_position_lag
    [of scenario_row3 "[scenario_write [1, 2], scenario_write [3]]"]
  show ?thesis
    using keeps lt by (simp add: scenario_defs eval_defs scenario_write_def)
qed

subsection \<open>Alignment of the null bitmap\<close>

text \<open>
  C2. After \<^verbatim>\<open>flush\<close>, with an alignment \<open>A > 0\<close> the \<open>isNullOffset\<close> of the index is a
  multiple of \<open>A\<close>. When the write offset of the value buffer was already a multiple,
  nothing is padded: the chunk is the bytes that were there followed by the bitmap.
  Otherwise exactly \<open>A - offset mod A\<close> bytes are appended to the value buffer, all of
  them zero, after the bytes that were there and before the bitmap, and the write
  offset ends at the old offset, plus the padding, plus the length of the bitmap. With
  \<open>A = 0\<close> the \<open>isNullOffset\<close> is the unpadded offset and no padding byte is appended.
  Both buffers have their cursors inside their storage and the offsets are within the
  range of \<^verbatim>\<open>int\<close>.
\<close>

theorem flush_isNullOffset_aligned:
  assumes "0 \<le> A" and "int (getWritePos (outputStream w)) + A < 2 ^ 31"
    and "cursors_ok (outputStream w)" and "cursors_ok (isNullStream w)"
  shows
    "(0 < A \<longrightarrow> isNullOffset (columnChunkIndex (flush A w)) mod A = 0)
     \<and> (0 < A \<and> int (getWritePos (outputStream w)) mod A = 0 \<longrightarrow>
          isNullOffset (columnChunkIndex (flush A w)) = int (getWritePos (outputStream w))
          \<and> getWritePos (outputStream (flush A w)) =
              getWritePos (outputStream w) + length (unconsumed (isNullStream (flush A w)))
          \<and> getColumnChunkContent (flush A w) =
              getColumnChunkContent w @ unconsumed (isNullStream (flush A w)))
     \<and> (0 < A \<and> int (getWritePos (outputStream w)) mod A \<noteq> 0 \<longrightarrow>
          isNullOffset (columnChunkIndex (flush A w)) =
            int (getWritePos (outputStream w)) + (A - int (getWritePos (outputStream w)) mod A)
          \<and> getWritePos (outputStream (flush A w)) =
              getWritePos (outputStream w) + nat (A - int (getWritePos (outputStream w)) mod A)
                + length (unconsumed (isNullStream (flush A w)))
          \<and> getColumnChunkContent (flush A w) =
              getColumnChunkContent w
                @ replicate (nat (A - int (getWritePos (outputStream w)) mod A)) 0
                @ unconsumed (isNullStream (flush A w)))
     \<and> (A = 0 \<longrightarrow>
          isNullOffset (columnChunkIndex (flush A w)) = int (getWritePos (outputStream w))
          \<and> getWritePos (outputStream (flush A w)) =
              getWritePos (outputStream w) + length (unconsumed (isNullStream (flush A w)))
          \<and> getColumnChunkContent (flush A w) =
              getColumnChunkContent w @ unconsumed (isNullStream (flush A w)))"
proof -
  let ?off = "getWritePos (outputStream w)"
  let ?ins = "isNullStream (flush A w)"
  have ins_ok: "cursors_ok ?ins"
    using assms(4) by (simp add: flush_isNullStream cursors_ok_pending_closed)
  have dist: "cursor_distance (getWritePos ?ins) (getReadPos ?ins) = length (unconsumed ?ins)"
    using ins_ok by (simp add: cursor_distance_ok unconsumed_length)
  note offs = flush_offsets(1,2) [OF assms(1,2), unfolded dist]
  have pad_le: "alignBytes_of A ?off \<le> length (ISNULL_PADDING_BUFFER A)"
  proof (cases "A = 0")
    case True
    then show ?thesis by (simp add: alignBytes_of_zero)
  next
    case False
    with assms(1) have "0 < A" by simp
    from alignBytes_of_less [OF this, of ?off] show ?thesis
      by (simp add: ISNULL_PADDING_BUFFER_def)
  qed
  have zeros: "take (alignBytes_of A ?off) (ISNULL_PADDING_BUFFER A) =
      replicate (alignBytes_of A ?off) 0"
    using pad_le by (simp add: ISNULL_PADDING_BUFFER_def min_def)
  note content = flush_content [OF assms pad_le, unfolded zeros]
  have aligned: "isNullOffset (columnChunkIndex (flush A w)) mod A = 0" if "0 < A"
    using alignBytes_of_dvd [OF that, of ?off] by (simp add: offs mod_eq_0_iff_dvd)
  have unpadded: "isNullOffset (columnChunkIndex (flush A w)) = int ?off
      \<and> getWritePos (outputStream (flush A w)) = ?off + length (unconsumed ?ins)
      \<and> getColumnChunkContent (flush A w) = getColumnChunkContent w @ unconsumed ?ins"
    if "A = 0 \<or> int ?off mod A = 0"
  proof -
    from that have "alignBytes_of A ?off = 0" by (auto simp: alignBytes_of_def)
    then show ?thesis using offs content by simp
  qed
  have padded: "isNullOffset (columnChunkIndex (flush A w)) = int ?off + (A - int ?off mod A)
      \<and> getWritePos (outputStream (flush A w)) =
          ?off + nat (A - int ?off mod A) + length (unconsumed ?ins)
      \<and> getColumnChunkContent (flush A w) =
          getColumnChunkContent w @ replicate (nat (A - int ?off mod A)) 0 @ unconsumed ?ins"
    if "0 < A" and "int ?off mod A \<noteq> 0"
  proof -
    from that(1) have "int ?off mod A \<le> A" by (simp add: less_imp_le)
    moreover from that have "alignBytes_of A ?off = nat (A - int ?off mod A)"
      by (simp add: alignBytes_of_def)
    ultimately show ?thesis using offs content by simp
  qed
  show ?thesis
  proof (intro conjI impI)
    assume "0 < A"
    then show "isNullOffset (columnChunkIndex (flush A w)) mod A = 0" by (rule aligned)
  next
    assume "0 < A \<and> int ?off mod A = 0"
    then have "A = 0 \<or> int ?off mod A = 0" by simp
    from unpadded [OF this]
    show "isNullOffset (columnChunkIndex (flush A w)) = int ?off"
      and "getWritePos (outputStream (flush A w)) = ?off + length (unconsumed ?ins)"
      and "getColumnChunkContent (flush A w) = getColumnChunkContent w @ unconsumed ?ins"
      by simp_all
  next
    assume "0 < A \<and> int ?off mod A \<noteq> 0"
    then have "0 < A" and "int ?off mod A \<noteq> 0" by simp_all
    from padded [OF this]
    show "isNullOffset (columnChunkIndex (flush A w)) = int ?off + (A - int ?off mod A)"
      and "getWritePos (outputStream (flush A w)) =
        ?off + nat (A - int ?off mod A) + length (unconsumed ?ins)"
      and "getColumnChunkContent (flush A w) =
        getColumnChunkContent w @ replicate (nat (A - int ?off mod A)) 0 @ unconsumed ?ins"
      by simp_all
  next
    assume "A = 0"
    then have "A = 0 \<or> int ?off mod A = 0" by simp
    from unpadded [OF this]
    show "isNullOffset (columnChunkIndex (flush A w)) = int ?off"
      and "getWritePos (outputStream (flush A w)) = ?off + length (unconsumed ?ins)"
      and "getColumnChunkContent (flush A w) = getColumnChunkContent w @ unconsumed ?ins"
      by simp_all
  qed
qed

theorem flush_isNullOffset_aligned_witness:
  "(0::int) \<le> 4 \<and> int (getWritePos (outputStream scenario_row3)) + 4 < 2 ^ 31
   \<and> cursors_ok (outputStream scenario_row3) \<and> cursors_ok (isNullStream scenario_row3)
   \<and> int (getWritePos (outputStream scenario_row3)) mod 4 \<noteq> 0
   \<and> isNullOffset (columnChunkIndex (flush 4 scenario_row3)) mod 4 = 0
   \<and> isNullOffset (columnChunkIndex (flush 4 scenario_row3)) = 4
   \<and> getWritePos (outputStream (flush 4 scenario_row3)) = 5
   \<and> getColumnChunkContent (flush 4 scenario_row3) = [1, 2, 3] @ [0] @ [2]
   \<and> int (getWritePos (outputStream scenario_row3)) + 0 < 2 ^ 31
   \<and> isNullOffset (columnChunkIndex (flush 0 scenario_row3)) = 3
   \<and> getWritePos (outputStream (flush 0 scenario_row3)) = 4
   \<and> getColumnChunkContent (flush 0 scenario_row3) = [1, 2, 3] @ [2]"
proof -
  have h4: "int (getWritePos (outputStream scenario_row3)) + 4 < 2 ^ 31"
    and h0: "int (getWritePos (outputStream scenario_row3)) + 0 < 2 ^ 31"
    and o: "cursors_ok (outputStream scenario_row3)"
    and i: "cursors_ok (isNullStream scenario_row3)"
    by (simp_all add: scenario_defs eval_defs)
  from flush_isNullOffset_aligned [OF _ h4 o i] flush_isNullOffset_aligned [OF _ h0 o i]
  show ?thesis
    by (simp add: scenario_defs eval_defs)
qed

subsection \<open>The bitmap of a pixel\<close>

text \<open>
  C3. A \<^verbatim>\<open>newPixel\<close> on a pixel without nulls (\<open>hasNull\<close> unset) leaves the null-bitmap
  buffer as it is. On a pixel with a null and \<open>n = curPixelIsNullIndex\<close> rows,
  \<open>n\<close> at most the stride, it appends the packed bitmap of the first \<open>n\<close> null flags,
  which is \<open>ceil (n / 8)\<close> bytes, written \<open>(n + 7) div 8\<close>: the write cursor advances by
  that much and the unconsumed bytes grow by exactly those bytes.
\<close>

theorem newPixel_bitmap_bytes:
  "(\<not> hasNull w \<longrightarrow> isNullStream (newPixel w) = isNullStream w)
   \<and> (hasNull w \<and> 0 \<le> curPixelIsNullIndex w \<and> curPixelIsNullIndex w \<le> pixelStride w
        \<and> length (isNull w) = nat (pixelStride w) \<longrightarrow>
        length (bitWiseCompact (isNull w) (curPixelIsNullIndex w) (byteOrder w)) =
          (nat (curPixelIsNullIndex w) + 7) div 8
        \<and> getWritePos (isNullStream (newPixel w)) =
            getWritePos (isNullStream w) + (nat (curPixelIsNullIndex w) + 7) div 8
        \<and> getReadPos (isNullStream (newPixel w)) = getReadPos (isNullStream w)
        \<and> (cursors_ok (isNullStream w) \<longrightarrow>
             unconsumed (isNullStream (newPixel w)) =
               unconsumed (isNullStream w)
                 @ bitWiseCompact (isNull w) (curPixelIsNullIndex w) (byteOrder w)))"
proof -
  have len: "length (bitWiseCompact (isNull w) (curPixelIsNullIndex w) (byteOrder w)) =
      (nat (curPixelIsNullIndex w) + 7) div 8"
    if "curPixelIsNullIndex w \<le> pixelStride w" and "length (isNull w) = nat (pixelStride w)"
    using that by (intro length_bitWiseCompact) simp
  show ?thesis
    by (simp add: newPixel_isNullStream getWritePos_putBytes getReadPos_putBytes
        unconsumed_putBytes len)
qed

theorem newPixel_bitmap_bytes_witness:
  "hasNull scenario_rows12 \<and> 0 \<le> curPixelIsNullIndex scenario_rows12
   \<and> curPixelIsNullIndex scenario_rows12 \<le> pixelStride scenario_rows12
   \<and> length (isNull scenario_rows12) = nat (pixelStride scenario_rows12)
   \<and> cursors_ok (isNullStream scenario_rows12)
   \<and> getWritePos (isNullStream (newPixel scenario_rows12)) = 1
   \<and> unconsumed (isNullStream (newPixel scenario_rows12)) = [2]
   \<and> \<not> hasNull scenario_row3
   \<and> isNullStream (newPixel scenario_row3) = isNullStream scenario_row3"
  using newPixel_bitmap_bytes [of scenario_rows12] newPixel_bitmap_bytes [of scenario_row3]
  by (simp add: scenario_defs eval_defs)

subsection \<open>The layout of the flushed chunk\<close>

text \<open>
  C4. After \<^verbatim>\<open>flush\<close> the unconsumed bytes of the value buffer are the value bytes
  that were there, then the zero padding (fewer than \<open>A\<close> bytes, none when \<open>A = 0\<close>),
  then all unconsumed bytes of the null-bitmap buffer. The \<open>isNullOffset\<close> of the index
  is the write offset of the value buffer just before the bitmap bytes were appended,
  and with the read cursor at 0 it is the place in the chunk where the bitmap starts.
  Both buffers have their cursors inside their storage and the offsets are within the
  range of \<^verbatim>\<open>int\<close>.
\<close>

theorem flush_chunk_layout:
  assumes "0 \<le> A" and "int (getWritePos (outputStream w)) + A < 2 ^ 31"
    and "cursors_ok (outputStream w)" and "cursors_ok (isNullStream w)"
  shows
    "getColumnChunkContent (flush A w) =
       getColumnChunkContent w
         @ replicate (alignBytes_of A (getWritePos (outputStream w))) 0
         @ unconsumed (isNullStream (flush A w))
     \<and> (0 < A \<longrightarrow> alignBytes_of A (getWritePos (outputStream w)) < nat A)
     \<and> (A = 0 \<longrightarrow> alignBytes_of A (getWritePos (outputStream w)) = 0)
     \<and> isNullOffset (columnChunkIndex (flush A w)) =
         int (getWritePos (outputStream w)) + int (alignBytes_of A (getWritePos (outputStream w)))
     \<and> isNullOffset (columnChunkIndex (flush A w)) =
         int (getWritePos (outputStream (flush A w)))
           - int (length (unconsumed (isNullStream (flush A w))))
     \<and> (getReadPos (outputStream w) = 0 \<longrightarrow>
          drop (nat (isNullOffset (columnChunkIndex (flush A w))))
            (getColumnChunkContent (flush A w)) = unconsumed (isNullStream (flush A w)))"
proof -
  let ?off = "getWritePos (outputStream w)"
  let ?ins = "isNullStream (flush A w)"
  have pad_le: "alignBytes_of A ?off \<le> length (ISNULL_PADDING_BUFFER A)"
  proof (cases "A = 0")
    case True
    then show ?thesis by (simp add: alignBytes_of_zero)
  next
    case False
    with assms(1) have "0 < A" by simp
    from alignBytes_of_less [OF this, of ?off] show ?thesis
      by (simp add: ISNULL_PADDING_BUFFER_def)
  qed
  have zeros: "take (alignBytes_of A ?off) (ISNULL_PADDING_BUFFER A) =
      replicate (alignBytes_of A ?off) 0"
    using pad_le by (simp add: ISNULL_PADDING_BUFFER_def min_def)
  note content = flush_content [OF assms pad_le, unfolded zeros]
  have ins_ok: "cursors_ok ?ins"
    using assms(4) by (simp add: flush_isNullStream cursors_ok_pending_closed)
  have dist: "cursor_distance (getWritePos ?ins) (getReadPos ?ins) = length (unconsumed ?ins)"
    using ins_ok by (simp add: cursor_distance_ok unconsumed_length)
  note offs = flush_offsets(1,2) [OF assms(1,2), unfolded dist]
  have len_w: "length (getColumnChunkContent w) = ?off - getReadPos (outputStream w)"
    using assms(3) by (simp add: getColumnChunkContent_unconsumed unconsumed_length)
  have before: "isNullOffset (columnChunkIndex (flush A w)) =
      int (getWritePos (outputStream (flush A w))) - int (length (unconsumed ?ins))"
    by (simp add: offs)
  have start: "drop (nat (isNullOffset (columnChunkIndex (flush A w))))
      (getColumnChunkContent (flush A w)) = unconsumed ?ins"
    if "getReadPos (outputStream w) = 0"
    using that len_w by (simp add: content offs(1) nat_add_distrib)
  show ?thesis
    using content before start alignBytes_of_less [of A ?off]
    by (simp add: offs(1) alignBytes_of_zero)
qed

theorem flush_chunk_layout_witness:
  "(0::int) \<le> 4 \<and> int (getWritePos (outputStream scenario_row3)) + 4 < 2 ^ 31
   \<and> cursors_ok (outputStream scenario_row3) \<and> cursors_ok (isNullStream scenario_row3)
   \<and> getReadPos (outputStream scenario_row3) = 0
   \<and> getColumnChunkContent scenario_row3 = [1, 2, 3]
   \<and> alignBytes_of 4 (getWritePos (outputStream scenario_row3)) = 1
   \<and> unconsumed (isNullStream (flush 4 scenario_row3)) = [2]
   \<and> getColumnChunkContent (flush 4 scenario_row3) = [1, 2, 3, 0, 2]
   \<and> isNullOffset (columnChunkIndex (flush 4 scenario_row3)) = 4
   \<and> drop 4 (getColumnChunkContent (flush 4 scenario_row3)) = [2]"
proof -
  have h: "int (getWritePos (outputStream scenario_row3)) + 4 < 2 ^ 31"
    and o: "cursors_ok (outputStream scenario_row3)"
    and i: "cursors_ok (isNullStream scenario_row3)"
    by (simp_all add: scenario_defs eval_defs)
  from flush_chunk_layout [OF _ h o i]
  show ?thesis
    by (simp add: scenario_defs eval_defs alignBytes_of_def)
qed

subsection \<open>Positions and statistics grow together\<close>

text \<open>
  C5. \<open>pixelPositions\<close> and \<open>pixelStatistics\<close> have the same length after every
  sequence of calls, from the constructed writer and from any writer where they have.
  \<^verbatim>\<open>newPixel\<close> appends one entry to each; \<^verbatim>\<open>flush\<close> changes them only through the
  \<^verbatim>\<open>newPixel\<close> it makes for a pending pixel; \<^verbatim>\<open>reset\<close> empties both; no other call
  touches the index.
\<close>

theorem index_parity_invariant:
  "(index_parity w \<longrightarrow> index_parity (run A cs w))
   \<and> index_parity (run A cs (ColumnWriter_init A writerOption))
   \<and> length (pixelPositions (columnChunkIndex (newPixel w))) =
       length (pixelPositions (columnChunkIndex w)) + 1
   \<and> length (pixelStatistics (columnChunkIndex (newPixel w))) =
       length (pixelStatistics (columnChunkIndex w)) + 1
   \<and> pixelPositions (columnChunkIndex (flush A w)) =
       (if 0 < curPixelEleIndex w then pixelPositions (columnChunkIndex (newPixel w))
        else pixelPositions (columnChunkIndex w))
   \<and> pixelStatistics (columnChunkIndex (flush A w)) =
       (if 0 < curPixelEleIndex w then pixelStatistics (columnChunkIndex (newPixel w))
        else pixelStatistics (columnChunkIndex w))
   \<and> pixelPositions (columnChunkIndex (reset w)) = []
   \<and> pixelStatistics (columnChunkIndex (reset w)) = []
   \<and> (c \<noteq> Flush \<and> c \<noteq> NewPixel \<and> c \<noteq> Reset \<longrightarrow>
        columnChunkIndex (exec A c w) = columnChunkIndex w)"
proof -
  have init: "index_parity (ColumnWriter_init A writerOption)"
    by (simp add: index_parity_def ColumnWriter_init_def ColumnChunkIndex_default_def
        set_isnullalignment_def set_nullspadding_def set_littleendian_def)
  have others: "columnChunkIndex (exec A c w) = columnChunkIndex w"
    if "c \<noteq> Flush" "c \<noteq> NewPixel" "c \<noteq> Reset"
    using that
    by (cases c)
      (simp_all add: close_def getColumnChunkContent_call_frame getColumnChunkSize_call_frame)
  show ?thesis
    by (simp add: run_parity init newPixel_columnChunkIndex flush_columnChunkIndex
        pending_closed_def reset_index_empty others)
qed

theorem index_parity_invariant_witness:
  "index_parity scenario_rows12
   \<and> index_parity (run 4 [NewPixel, Flush, GetColumnChunkContent, Reset, NewPixel, Close]
        scenario_rows12)
   \<and> Close \<noteq> Flush \<and> Close \<noteq> NewPixel \<and> Close \<noteq> Reset
   \<and> columnChunkIndex (exec 4 Close scenario_rows12) = columnChunkIndex scenario_rows12"
  using index_parity_invariant
    [of scenario_rows12 4 "[NewPixel, Flush, GetColumnChunkContent, Reset, NewPixel, Close]"
      scenario_option Close]
  by (simp add: index_parity_def scenario_defs eval_defs)

subsection \<open>The pending pixel at flush\<close>

text \<open>
  C6. A \<^verbatim>\<open>flush\<close> with a pending partial pixel (\<open>curPixelEleIndex > 0\<close>) is the flush
  of the writer that \<^verbatim>\<open>newPixel\<close> leaves, in which no pixel is pending: the pixel is
  closed before the offset of the bitmap is computed, its position and statistics are in
  the index and its recorder is merged into the recorder of the chunk. Without a
  pending pixel \<^verbatim>\<open>flush\<close> makes no such transition: positions, statistics, both
  recorders, the null-bitmap buffer, \<open>lastPixelPosition\<close> and \<open>hasNull\<close> stay as they are.
\<close>

theorem flush_forces_newPixel:
  "(0 < curPixelEleIndex w \<longrightarrow>
      flush A w = flush A (newPixel w)
      \<and> curPixelEleIndex (newPixel w) = 0
      \<and> pixelPositions (columnChunkIndex (flush A w)) =
          pixelPositions (columnChunkIndex w) @ [lastPixelPosition w]
      \<and> pixelStatistics (columnChunkIndex (flush A w)) =
          pixelStatistics (columnChunkIndex w)
            @ [\<lparr>statistic = serialize (closing_recorder w)\<rparr>]
      \<and> columnChunkStatRecorder (flush A w) =
          merge (columnChunkStatRecorder w) (closing_recorder w))
   \<and> (curPixelEleIndex w \<le> 0 \<longrightarrow>
      pixelPositions (columnChunkIndex (flush A w)) = pixelPositions (columnChunkIndex w)
      \<and> pixelStatistics (columnChunkIndex (flush A w)) = pixelStatistics (columnChunkIndex w)
      \<and> columnChunkStatRecorder (flush A w) = columnChunkStatRecorder w
      \<and> pixelStatRecorder (flush A w) = pixelStatRecorder w
      \<and> isNullStream (flush A w) = isNullStream w
      \<and> lastPixelPosition (flush A w) = lastPixelPosition w
      \<and> hasNull (flush A w) = hasNull w)"
proof (intro conjI impI)
  assume pending: "0 < curPixelEleIndex w"
  then have closed: "pending_closed w = newPixel w"
    by (simp add: pending_closed_def)
  show "flush A w = flush A (newPixel w)"
    using pending by (simp add: flush_def newPixel_counters)
  show "curPixelEleIndex (newPixel w) = 0"
    by (simp add: newPixel_counters)
  show "pixelPositions (columnChunkIndex (flush A w)) =
      pixelPositions (columnChunkIndex w) @ [lastPixelPosition w]"
    by (simp add: flush_columnChunkIndex closed newPixel_columnChunkIndex)
  show "pixelStatistics (columnChunkIndex (flush A w)) =
      pixelStatistics (columnChunkIndex w) @ [\<lparr>statistic = serialize (closing_recorder w)\<rparr>]"
    by (simp add: flush_columnChunkIndex closed newPixel_columnChunkIndex)
  show "columnChunkStatRecorder (flush A w) =
      merge (columnChunkStatRecorder w) (closing_recorder w)"
    by (simp add: flush_frame closed newPixel_columnChunkStatRecorder)
next
  assume "curPixelEleIndex w \<le> 0"
  then have idle: "pending_closed w = w"
    by (simp add: pending_closed_def)
  show "pixelPositions (columnChunkIndex (flush A w)) = pixelPositions (columnChunkIndex w)"
    and "pixelStatistics (columnChunkIndex (flush A w)) = pixelStatistics (columnChunkIndex w)"
    by (simp_all add: flush_columnChunkIndex idle)
  show "columnChunkStatRecorder (flush A w) = columnChunkStatRecorder w"
    and "pixelStatRecorder (flush A w) = pixelStatRecorder w"
    and "lastPixelPosition (flush A w) = lastPixelPosition w"
    and "hasNull (flush A w) = hasNull w"
    by (simp_all add: flush_frame idle)
  show "isNullStream (flush A w) = isNullStream w"
    by (simp add: flush_isNullStream idle)
qed

theorem flush_forces_newPixel_witness:
  "0 < curPixelEleIndex scenario_row3
   \<and> flush 4 scenario_row3 = flush 4 (newPixel scenario_row3)
   \<and> pixelPositions (columnChunkIndex (flush 4 scenario_row3)) = [0, 2]
   \<and> curPixelEleIndex (newPixel scenario_rows12) \<le> 0
   \<and> pixelPositions (columnChunkIndex (flush 4 (newPixel scenario_rows12))) = [0]"
  using flush_forces_newPixel [of scenario_row3 4]
    flush_forces_newPixel [of "newPixel scenario_rows12" 4]
  by (simp add: scenario_defs eval_defs)

subsection \<open>Reset\<close>

text \<open>
  C7. The flags of the index after a reset, evaluated: a writer constructed for
  little-endian byte order with alignment 8 has \<open>littleEndian\<close> set and
  \<open>isNullAlignment = 8\<close> in its index; after \<^verbatim>\<open>reset\<close>, whose \<^verbatim>\<open>Clear()\<close> returns the
  whole index to its defaults and which does not set the flags again (as lines 105 to
  107 of the constructor do), \<open>littleEndian\<close> is unset and \<open>isNullAlignment\<close> is 0.
\<close>

theorem reset_clears_index_flags:
  "littleEndian (columnChunkIndex (ColumnWriter_init 8
      \<lparr>pixelsStride = 2, opt_encodingLevel = 0, opt_byteOrder = PIXELS_LITTLE_ENDIAN\<rparr>))
   \<and> isNullAlignment (columnChunkIndex (ColumnWriter_init 8
      \<lparr>pixelsStride = 2, opt_encodingLevel = 0, opt_byteOrder = PIXELS_LITTLE_ENDIAN\<rparr>)) = 8
   \<and> \<not> littleEndian (columnChunkIndex (reset (ColumnWriter_init 8
      \<lparr>pixelsStride = 2, opt_encodingLevel = 0, opt_byteOrder = PIXELS_LITTLE_ENDIAN\<rparr>)))
   \<and> isNullAlignment (columnChunkIndex (reset (ColumnWriter_init 8
      \<lparr>pixelsStride = 2, opt_encodingLevel = 0, opt_byteOrder = PIXELS_LITTLE_ENDIAN\<rparr>))) = 0"
  by (simp add: reset_def Clear_def ColumnChunkIndex_default_def ColumnWriter_init_def
      set_isnullalignment_def set_nullspadding_def set_littleendian_def)

text \<open>
  C8. Reset is idempotent: after one reset the index has no pixel positions and no
  pixel statistics, its \<open>isNullOffset\<close> is zero and both statistics recorders are empty,
  and a second reset changes nothing.
\<close>

theorem reset_idempotent:
  "reset (reset w) = reset w
   \<and> pixelPositions (columnChunkIndex (reset w)) = []
   \<and> pixelStatistics (columnChunkIndex (reset w)) = []
   \<and> isNullOffset (columnChunkIndex (reset w)) = 0
   \<and> pixelStatRecorder (reset w) = StatsRecorder_new
   \<and> columnChunkStatRecorder (reset w) = StatsRecorder_new"
  by (simp add: reset_def Clear_def Clear_stat_def ColumnChunkIndex_default_def
      reset_recorder_def StatsRecorder_new_def resetPosition_def)

theorem reset_idempotent_witness:
  "reset (reset (flush 4 scenario_row3)) = reset (flush 4 scenario_row3)
   \<and> pixelPositions (columnChunkIndex (flush 4 scenario_row3)) = [0, 2]
   \<and> pixelPositions (columnChunkIndex (reset (flush 4 scenario_row3))) = []
   \<and> isNullOffset (columnChunkIndex (flush 4 scenario_row3)) = 4
   \<and> isNullOffset (columnChunkIndex (reset (flush 4 scenario_row3))) = 0"
  using reset_idempotent [of "flush 4 scenario_row3"]
  by (simp add: scenario_defs eval_defs)

subsection \<open>Nulls in the statistics of the chunk\<close>



subsection \<open>The accessors of the chunk as observers\<close>

text \<open>
  C10. \<^verbatim>\<open>getColumnChunkContent\<close> and \<^verbatim>\<open>getColumnChunkSize\<close> are observers. Each
  leaves the writer (cursors, buffers, index and all) exactly as it found it, since
  all it calls on the buffer are the three observers of the buffer; so a second call
  returns what the first did, and after any sequence of the two calls the writer and
  both results are what they were. The content is a copy of the bytes of the value
  buffer from the read cursor up to the write cursor: as many bytes as the cursors
  are apart, byte \<open>i\<close> being the byte of the storage at the read cursor plus \<open>i\<close>. The
  size is the length of the content (cursors inside the storage, the length within
  the range of \<^verbatim>\<open>int\<close>).
\<close>

theorem chunk_content_size:
  "snd (getColumnChunkContent_call w) = w
   \<and> snd (getColumnChunkSize_call w) = w
   \<and> fst (getColumnChunkContent_call (snd (getColumnChunkContent_call w))) =
       fst (getColumnChunkContent_call w)
   \<and> fst (getColumnChunkSize_call (snd (getColumnChunkSize_call w))) =
       fst (getColumnChunkSize_call w)
   \<and> fst (getColumnChunkSize_call (snd (getColumnChunkContent_call w))) =
       fst (getColumnChunkSize_call w)
   \<and> fst (getColumnChunkContent_call (snd (getColumnChunkSize_call w))) =
       fst (getColumnChunkContent_call w)
   \<and> ((\<forall>c \<in> set cs. c = GetColumnChunkContent \<or> c = GetColumnChunkSize) \<longrightarrow>
        run A cs w = w
        \<and> getColumnChunkContent (run A cs w) = getColumnChunkContent w
        \<and> getColumnChunkSize (run A cs w) = getColumnChunkSize w)
   \<and> exec A GetColumnChunkContent w = w
   \<and> exec A GetColumnChunkSize w = w
   \<and> getColumnChunkContent w =
       take (getWritePos (outputStream w) - getReadPos (outputStream w))
         (drop (getReadPos (outputStream w)) (buf (outputStream w)))
   \<and> (cursors_ok (outputStream w) \<longrightarrow>
        length (getColumnChunkContent w) =
          getWritePos (outputStream w) - getReadPos (outputStream w)
        \<and> (\<forall>i < getWritePos (outputStream w) - getReadPos (outputStream w).
             getColumnChunkContent w ! i =
               buf (outputStream w) ! (getReadPos (outputStream w) + i)))
   \<and> (cursors_ok (outputStream w)
        \<and> getWritePos (outputStream w) - getReadPos (outputStream w) < 2 ^ 31 \<longrightarrow>
        getColumnChunkSize w = int (length (getColumnChunkContent w)))"
proof -
  note calls = getPointer_call_def getReadPos_call_def getWritePos_call_def
  have content_frame: "snd (getColumnChunkContent_call v) = v" for v
    by (simp add: getColumnChunkContent_call_def calls)
  have size_frame: "snd (getColumnChunkSize_call v) = v" for v
    by (simp add: getColumnChunkSize_call_def calls)
  have again: "run A cs v = v"
    if "\<forall>c \<in> set cs. c = GetColumnChunkContent \<or> c = GetColumnChunkSize" for v
    using that by (induction cs) (auto simp: content_frame size_frame)
  have copy: "getColumnChunkContent w =
      take (getWritePos (outputStream w) - getReadPos (outputStream w))
        (drop (getReadPos (outputStream w)) (buf (outputStream w)))"
    by (simp add: getColumnChunkContent_def getColumnChunkContent_call_def calls
        vector_range_def)
  have bytes: "length (getColumnChunkContent w) =
        getWritePos (outputStream w) - getReadPos (outputStream w)
      \<and> (\<forall>i < getWritePos (outputStream w) - getReadPos (outputStream w).
           getColumnChunkContent w ! i =
             buf (outputStream w) ! (getReadPos (outputStream w) + i))"
    if "cursors_ok (outputStream w)"
    using that
    by (auto simp: copy cursors_ok_def getWritePos_def getReadPos_def)
  have size: "getColumnChunkSize w = int (length (getColumnChunkContent w))"
    if "cursors_ok (outputStream w)"
      and "getWritePos (outputStream w) - getReadPos (outputStream w) < 2 ^ 31"
    using that bytes [OF that(1)]
    by (simp add: getColumnChunkSize_def getColumnChunkSize_call_def calls
        cursor_distance_ok static_cast_int_id)
  show ?thesis
    using again [of w] bytes size copy by (simp add: content_frame size_frame)
qed

theorem chunk_content_size_witness:
  "cursors_ok (outputStream (flush 4 scenario_row3))
   \<and> getWritePos (outputStream (flush 4 scenario_row3))
       - getReadPos (outputStream (flush 4 scenario_row3)) < 2 ^ 31
   \<and> snd (getColumnChunkContent_call (flush 4 scenario_row3)) = flush 4 scenario_row3
   \<and> run 4 [GetColumnChunkContent, GetColumnChunkSize, GetColumnChunkContent]
        (flush 4 scenario_row3) = flush 4 scenario_row3
   \<and> getColumnChunkContent (flush 4 scenario_row3) = [1, 2, 3, 0, 2]
   \<and> length (getColumnChunkContent (flush 4 scenario_row3)) = 5
   \<and> getColumnChunkContent (flush 4 scenario_row3) ! 3 = 0
   \<and> getColumnChunkSize (flush 4 scenario_row3) = 5"
  using chunk_content_size
    [of "flush 4 scenario_row3" "[GetColumnChunkContent, GetColumnChunkSize, GetColumnChunkContent]" 4]
  by (simp add: scenario_defs eval_defs)

end
